theory Spec2Isabelle
  imports Complex_Main "HOL-Library.Multiset"
begin

section \<open>The charge monitor (server/src/monitors/chargeMonitor.ts)\<close>

text \<open>
  A shallow embedding of the class \<open>ChargeMonitor\<close>. Conventions:
  \<^item> a JavaScript number that the code computes with is an exact rational (\<open>rat\<close>):
    the rounding of doubles is not modelled, and the inputs are finite numbers; the one
    place where the code itself can produce NaN (the mean of an empty list) is an
    \<open>option\<close>; timestamps (epoch milliseconds) and counts are \<open>int\<close>;
  \<^item> the instance is a record of its fields, and every method takes the instance and
    returns the updated one; what the instance does to its collaborators (logger, plug,
    interruptible sleep) is appended, in order, to the field \<open>effects\<close>;
  \<^item> a thrown exception is the left summand of the result;
  \<^item> what a method reads from its surroundings (the clock, the price source, the plug)
    is an argument. Statements that run without an intervening \<open>await\<close> read the same
    clock value. Calls made by other flows while a method awaits are not interleaved:
    a call of \<open>updateOverrideSettings\<close> from outside is a separate step.
\<close>

subsection \<open>Data model\<close>

record ChargeMonitorSettings =
  cutoffHour :: rat
  maxPrice :: rat
  stateOfCharge :: rat
  preferredPrice :: rat

text \<open>
  \<open>Partial<typeof this.settings>\<close>: every settings field may be absent (\<open>None\<close>).
  The override overlay is \<open>Partial<typeof this.settings> & { expireAt: number }\<close>.
\<close>

record PartialSettings =
  cutoffHourP :: "rat option"
  maxPriceP :: "rat option"
  stateOfChargeP :: "rat option"
  preferredPriceP :: "rat option"

record OverrideSettings = PartialSettings +
  expireAt :: int

text \<open>
  Modelled from the spec: the type of the elements that \<open>getUpcomingRates\<close> returns is
  declared in \<open>../apis/amber\<close>; the spec gives it as
  \<open>{perKwh: number, endTimestamp: epoch-ms, type: "CurrentInterval"|"Forecast"}\<close>.
\<close>

datatype priceType = CurrentInterval | Forecast

record price =
  perKwh :: rat
  endTimestamp :: int
  type :: priceType

record chargingTime =
  time :: int
  price :: rat

text \<open>
  A property of a JavaScript object: the key is absent, or present with the value
  \<open>undefined\<close>, or present with a value. The spread \<open>{...a, ...b}\<close> takes a key from
  \<open>b\<close> whenever \<open>b\<close> has it, whatever its value.
\<close>

datatype 'a property = Absent | Undefined | Value 'a

text \<open>
  Modelled from the spec: \<open>ChargeMonitorLastUpdate\<close> is declared in
  \<open>../models/chargeMonitor\<close>; its fields are the ones the class writes.
\<close>

record ChargeMonitorLastUpdate =
  lowestPrices :: "price list property"
  priceMax :: "rat property"
  currentPrice :: "price property"
  cutoff :: "int property"
  settings' :: "ChargeMonitorSettings property"
  charge :: "bool property"
  predictedStateOfCharge :: "rat property"
  predictedAveragePrice :: "rat option property"
  isPluggedIn :: "bool property"
  chargingTimes :: "chargingTime list property"

datatype error = Error string | TypeError string

datatype logMessage =
    UpdatedOverrideSettings OverrideSettings
  | NotEnoughPrices
  | ChargingIsAt rat rat
  | TurnOnCharging
  | TurnOffCharging
  | WaitFor int
  | ErrorOccurredRetrying

datatype effect =
    LoggerInfo logMessage
  | LoggerError error
  | SetMerossPlug bool
  | Sleep int
  | Interrupt

record ChargeMonitor =
  settings :: ChargeMonitorSettings
  lastUpdate :: ChargeMonitorLastUpdate
  overrideSettings :: OverrideSettings
  effects :: "effect list"

text \<open>
  What the code reads from a \<open>Date\<close>. \<open>setHoursTime nextDay h\<close> is the value of
  \<open>getTime()\<close> after \<open>setDate(getDate() + 1)\<close> (when \<open>nextDay\<close>) and
  \<open>setHours(h, 0, 0, 0)\<close>: the calendar arithmetic of the runtime.
\<close>

record MerossPlug =
  power :: rat

record date =
  getTime :: int
  getDay :: nat
  getHours :: nat
  getMinutes :: nat
  setHoursTime :: "bool \<Rightarrow> rat \<Rightarrow> int"

text \<open>The object literal \<open>{}\<close> as a partial snapshot: no key is present.\<close>

definition noValues :: ChargeMonitorLastUpdate where
  "noValues =
     \<lparr> lowestPrices = Absent, priceMax = Absent, currentPrice = Absent,
       cutoff = Absent, settings' = Absent, charge = Absent,
       predictedStateOfCharge = Absent, predictedAveragePrice = Absent,
       isPluggedIn = Absent, chargingTimes = Absent \<rparr>"

text \<open>The field initialisers of the class.\<close>

definition newChargeMonitor :: ChargeMonitor where
  "newChargeMonitor =
     \<lparr> settings = \<lparr> cutoffHour = 15, maxPrice = 35, stateOfCharge = 85, preferredPrice = 18 \<rparr>,
       lastUpdate = noValues,
       overrideSettings = \<lparr> cutoffHourP = None, maxPriceP = None, stateOfChargeP = None,
         preferredPriceP = None, expireAt = 0 \<rparr>,
       effects = [] \<rparr>"

subsection \<open>Settings store\<close>

definition overrideSettingsValid :: "ChargeMonitor \<Rightarrow> date \<Rightarrow> bool" where
  "overrideSettingsValid this now \<longleftrightarrow> expireAt (overrideSettings this) \<ge> getTime now"

text \<open>
  \<open>{ ...this.settings, ...this.overrideSettings }\<close>, read as settings (the object also
  carries the overlay's \<open>expireAt\<close>, which no reader of the settings uses).
\<close>

definition orElse :: "'a option \<Rightarrow> 'a \<Rightarrow> 'a" where
  "orElse b a = (case b of None \<Rightarrow> a | Some v \<Rightarrow> v)"

definition spreadSettings :: "ChargeMonitorSettings \<Rightarrow> OverrideSettings \<Rightarrow> ChargeMonitorSettings" where
  "spreadSettings s ov =
     \<lparr> cutoffHour = orElse (cutoffHourP ov) (cutoffHour s),
       maxPrice = orElse (maxPriceP ov) (maxPrice s),
       stateOfCharge = orElse (stateOfChargeP ov) (stateOfCharge s),
       preferredPrice = orElse (preferredPriceP ov) (preferredPrice s) \<rparr>"

definition getSettings :: "ChargeMonitor \<Rightarrow> date \<Rightarrow> ChargeMonitorSettings" where
  "getSettings this now =
     (if overrideSettingsValid this now then spreadSettings (settings this) (overrideSettings this)
      else
        let cutoff =
          (if (getDay now = 5 \<and> getHours now \<ge> 15) \<or> (getDay now = 6 \<and> getHours now < 9) then 9
           else if (getDay now = 6 \<and> getHours now \<ge> 9) \<or> (getDay now = 0 \<and> getHours now < 10) then 10
           else 15)
        in (settings this)\<lparr> cutoffHour := cutoff \<rparr>)"

definition emit :: "effect list \<Rightarrow> ChargeMonitor \<Rightarrow> ChargeMonitor" where
  "emit es this = this\<lparr> effects := effects this @ es \<rparr>"

definition updateOverrideSettings ::
  "PartialSettings \<Rightarrow> bool \<Rightarrow> date \<Rightarrow> ChargeMonitor \<Rightarrow> ChargeMonitor" where
  "updateOverrideSettings partial updateExpiry now this =
     (let ov = \<lparr> cutoffHourP = cutoffHourP partial, maxPriceP = maxPriceP partial,
                  stateOfChargeP = stateOfChargeP partial, preferredPriceP = preferredPriceP partial,
                  expireAt = (if updateExpiry then getTime now + 24 * 60 * 60 * 1000
                              else expireAt (overrideSettings this)) \<rparr>
      in emit [Interrupt, LoggerInfo (UpdatedOverrideSettings ov)]
           (this\<lparr> overrideSettings := ov \<rparr>))"

subsection \<open>Snapshot\<close>

definition spread :: "'a property \<Rightarrow> 'a property \<Rightarrow> 'a property" where
  "spread a b = (case b of Absent \<Rightarrow> a | _ \<Rightarrow> b)"

definition spreadLastUpdate ::
  "ChargeMonitorLastUpdate \<Rightarrow> ChargeMonitorLastUpdate \<Rightarrow> ChargeMonitorLastUpdate" where
  "spreadLastUpdate a b =
     \<lparr> lowestPrices = spread (lowestPrices a) (lowestPrices b),
       priceMax = spread (priceMax a) (priceMax b),
       currentPrice = spread (currentPrice a) (currentPrice b),
       cutoff = spread (cutoff a) (cutoff b),
       settings' = spread (settings' a) (settings' b),
       charge = spread (charge a) (charge b),
       predictedStateOfCharge = spread (predictedStateOfCharge a) (predictedStateOfCharge b),
       predictedAveragePrice = spread (predictedAveragePrice a) (predictedAveragePrice b),
       isPluggedIn = spread (isPluggedIn a) (isPluggedIn b),
       chargingTimes = spread (chargingTimes a) (chargingTimes b) \<rparr>"

text \<open>
  An array is truthy, \<open>undefined\<close> (also of an absent key) is falsy: the condition
  \<open>values.chargingTimes && this.lastUpdate.chargingTimes\<close> holds when both are arrays.
\<close>

definition setLastUpdate :: "ChargeMonitorLastUpdate \<Rightarrow> ChargeMonitor \<Rightarrow> ChargeMonitor" where
  "setLastUpdate values this =
     (let values1 =
        (case (chargingTimes values, chargingTimes (lastUpdate this)) of
           (Value new, Value old) \<Rightarrow> values\<lparr> chargingTimes := Value (old @ new) \<rparr>
         | _ \<Rightarrow> values)
      in this\<lparr> lastUpdate := spreadLastUpdate (lastUpdate this) values1 \<rparr>)"

definition getLastUpdate :: "ChargeMonitor \<Rightarrow> ChargeMonitorLastUpdate" where
  "getLastUpdate this = lastUpdate this"

text \<open>The charging events recorded so far; none when the key is absent or undefined.\<close>

definition history :: "ChargeMonitorLastUpdate \<Rightarrow> chargingTime list" where
  "history u = (case chargingTimes u of Value ts \<Rightarrow> ts | _ \<Rightarrow> [])"

subsection \<open>Decision engine\<close>

definition calculateTimeToNextMinute :: "date \<Rightarrow> int" where
  "calculateTimeToNextMinute now =
     (let currentMinute = int (getMinutes now)
      in (if currentMinute > 30 then 60 else 30) - currentMinute + 1)"

definition getUpcomingCutoff :: "ChargeMonitor \<Rightarrow> date \<Rightarrow> int" where
  "getUpcomingCutoff this now =
     (let currentHour = getHours now;
          s = getSettings this now
      in setHoursTime now (of_nat currentHour \<ge> cutoffHour s) (cutoffHour s))"

text \<open>\<open>Array.prototype.slice(start, end)\<close>: a negative index counts from the end.\<close>

definition slice :: "'a list \<Rightarrow> int \<Rightarrow> int \<Rightarrow> 'a list" where
  "slice xs start end' =
     (let len = int (length xs);
          k = (if start < 0 then max (len + start) 0 else min start len);
          final = (if end' < 0 then max (len + end') 0 else min end' len)
      in take (nat (final - k)) (drop (nat k) xs))"

text \<open>The locals of \<open>shouldCharge\<close>, in the order the method computes them.\<close>

definition requiredTime :: "ChargeMonitorSettings \<Rightarrow> int" where
  "requiredTime s = \<lceil>(100 - stateOfCharge s + 1 / 10) / (5 / 4)\<rceil>"

text \<open>
  \<open>prices.filter(...)\<close> followed by the in-place \<open>sort\<close> with the comparator
  \<open>a.perKwh - b.perKwh\<close>; \<open>Array.prototype.sort\<close> is stable, as \<open>sort_key\<close> is.
\<close>

definition validPrices :: "price list \<Rightarrow> int \<Rightarrow> price list" where
  "validPrices prices c = sort_key perKwh (filter (\<lambda>p. endTimestamp p \<le> c) prices)"

definition cheapest :: "price list \<Rightarrow> int \<Rightarrow> ChargeMonitorSettings \<Rightarrow> price list" where
  "cheapest prices c s = slice (validPrices prices c) 0 (requiredTime s)"

text \<open>
  \<open>lowestPrices[lowestPrices.length - 1].perKwh\<close>: on an empty array the element is
  \<open>undefined\<close> and reading its property throws a TypeError.
\<close>

definition lastPerKwh :: "price list \<Rightarrow> error + rat" where
  "lastPerKwh ps =
     (if ps = [] then Inl (TypeError ''Cannot read properties of undefined'')
      else Inr (perKwh (last ps)))"

definition computePriceMax :: "price list \<Rightarrow> ChargeMonitorSettings \<Rightarrow> error + rat" where
  "computePriceMax lowest s =
     (case lastPerKwh lowest of Inl e \<Rightarrow> Inl e | Inr m \<Rightarrow> Inr (min (m + 1) (maxPrice s)))"

definition mean :: "price list \<Rightarrow> rat option" where
  "mean ps =
     (if ps = [] then None
      else Some (foldl (\<lambda>accumulator currentValue. accumulator + perKwh currentValue) 0 ps
                   / of_nat (length ps)))"

definition shouldCharge ::
  "error + price list \<Rightarrow> date \<Rightarrow> ChargeMonitor \<Rightarrow> (error + bool) \<times> ChargeMonitor" where
  "shouldCharge rates now this =
     (case rates of
        Inl e \<Rightarrow> (Inl e, this)
      | Inr prices \<Rightarrow>
          let c = getUpcomingCutoff this now;
              s = getSettings this now;
              lowest = cheapest prices c s
          in (case computePriceMax lowest s of
                Inl e \<Rightarrow> (Inl e, this)
              | Inr pm \<Rightarrow>
                  let this1 = (if int (length lowest) < requiredTime s
                               then emit [LoggerInfo NotEnoughPrices] this else this)
                  in (case find (\<lambda>p. type p = CurrentInterval) prices of
                        None \<Rightarrow> (Inl (Error ''No current price found''), this1)
                      | Some cur \<Rightarrow>
                          let decision = (perKwh cur < pm);
                              predictedOnState = filter (\<lambda>p. perKwh p \<le> pm) (validPrices prices c)
                          in (Inr decision,
                              setLastUpdate
                                \<lparr> lowestPrices = Value lowest,
                                  priceMax = Value pm,
                                  currentPrice = Value cur,
                                  cutoff = Value c,
                                  settings' = Value s,
                                  charge = Value decision,
                                  predictedStateOfCharge =
                                    Value (min (of_nat (length predictedOnState) * (5 / 4)
                                                + stateOfCharge s) 100),
                                  predictedAveragePrice = Value (mean predictedOnState),
                                  isPluggedIn = Absent,
                                  chargingTimes = Absent \<rparr>
                                this1))))"

subsection \<open>Power sampling\<close>

definition recordPower ::
  "date \<Rightarrow> error + MerossPlug \<Rightarrow> date \<Rightarrow> ChargeMonitor \<Rightarrow> (error + bool) \<times> ChargeMonitor" where
  "recordPower now plugResult later this =
     (let s = getSettings this now
      in (case plugResult of
            Inl e \<Rightarrow> (Inl e, this)
          | Inr plug \<Rightarrow>
              if power plug > 1000 then
                let newStateOfCharge = min (stateOfCharge s + 5 / 4) 100;
                    this1 = emit [LoggerInfo (ChargingIsAt (power plug) newStateOfCharge)] this;
                    this2 = (if overrideSettingsValid this1 later
                             then updateOverrideSettings
                                    \<lparr> cutoffHourP = None, maxPriceP = None,
                                      stateOfChargeP = Some newStateOfCharge,
                                      preferredPriceP = None \<rparr>
                                    False later this1
                             else this1)
                in (Inr True, this2)
              else (Inr False, this)))"

subsection \<open>Control loop\<close>

text \<open>What one pass of the loop reads from its surroundings, in the order it reads it.\<close>

record cycle =
  getUpcomingRates :: "error + price list"
  evaluated :: date
  setMerossPlug :: "error + unit"
  sampled :: date
  getMerossPlug :: "error + MerossPlug"
  resumed :: date
  recorded :: date

text \<open>\<open>this.getLastUpdate()?.currentPrice?.perKwh || 0\<close>: 0 for a falsy left operand.\<close>

definition lastKnownPrice :: "ChargeMonitor \<Rightarrow> rat" where
  "lastKnownPrice this =
     (case currentPrice (getLastUpdate this) of
        Value p \<Rightarrow> (if perKwh p = 0 then 0 else perKwh p)
      | _ \<Rightarrow> 0)"

definition waitForNext :: "date \<Rightarrow> ChargeMonitor \<Rightarrow> ChargeMonitor" where
  "waitForNext now this =
     (let next = calculateTimeToNextMinute now
      in emit [LoggerInfo (WaitFor next), Sleep (next * 60 * 1000)] this)"

text \<open>The branch of the loop taken after \<open>shouldCharge\<close> returned true.\<close>

definition charging :: "cycle \<Rightarrow> ChargeMonitor \<Rightarrow> (error + unit) \<times> ChargeMonitor" where
  "charging env this =
     (let this1 = emit [LoggerInfo TurnOnCharging, SetMerossPlug True] this
      in (case setMerossPlug env of
            Inl e \<Rightarrow> (Inl e, this1)
          | Inr _ \<Rightarrow>
              (case recordPower (sampled env) (getMerossPlug env) (resumed env)
                      (emit [Sleep 20000] this1) of
                 (Inl e, this2) \<Rightarrow> (Inl e, this2)
               | (Inr plugged, this2) \<Rightarrow>
                   (Inr (),
                    waitForNext (recorded env)
                      (setLastUpdate
                         (noValues
                            \<lparr> isPluggedIn := Value plugged,
                              chargingTimes :=
                                (if plugged
                                 then Value [\<lparr> time = getTime (recorded env),
                                               price = lastKnownPrice this2 \<rparr>]
                                 else Undefined) \<rparr>)
                         this2)))))"

text \<open>The branch taken after \<open>shouldCharge\<close> returned false.\<close>

definition idle :: "cycle \<Rightarrow> ChargeMonitor \<Rightarrow> (error + unit) \<times> ChargeMonitor" where
  "idle env this =
     (let this1 = emit [LoggerInfo TurnOffCharging, SetMerossPlug False] this
      in (case setMerossPlug env of
            Inl e \<Rightarrow> (Inl e, this1)
          | Inr _ \<Rightarrow>
              (Inr (),
               waitForNext (recorded env)
                 (setLastUpdate
                    (noValues\<lparr> isPluggedIn := Value False \<rparr>) this1))))"

text \<open>The body of the \<open>try\<close> block.\<close>

definition attempt :: "cycle \<Rightarrow> ChargeMonitor \<Rightarrow> (error + unit) \<times> ChargeMonitor" where
  "attempt env this =
     (case shouldCharge (getUpcomingRates env) (evaluated env) this of
        (Inl e, this1) \<Rightarrow> (Inl e, this1)
      | (Inr True, this1) \<Rightarrow> charging env this1
      | (Inr False, this1) \<Rightarrow> idle env this1)"

text \<open>One pass of \<open>while (true)\<close>: the \<open>try\<close> block and its \<open>catch\<close>.\<close>

definition pass :: "cycle \<Rightarrow> ChargeMonitor \<Rightarrow> ChargeMonitor" where
  "pass env this =
     (case attempt env this of
        (Inr _, this1) \<Rightarrow> this1
      | (Inl e, this1) \<Rightarrow>
          emit [LoggerError e, LoggerInfo ErrorOccurredRetrying, Sleep 60000] this1)"

text \<open>
  The loop never returns. \<open>monitor envs\<close> is its first \<open>length envs\<close> passes, one for
  each element of \<open>envs\<close>.
\<close>

fun monitor :: "cycle list \<Rightarrow> ChargeMonitor \<Rightarrow> ChargeMonitor" where
  "monitor [] this = this"
| "monitor (env # envs) this = monitor envs (pass env this)"

subsection \<open>Example data\<close>

text \<open>
  A Monday, 08:10 local time, at 1000 ms of the epoch used here, on days of 24 hours:
  15:00 of the same day is at 24601000 ms.
\<close>

definition mondayMorning :: date where
  "mondayMorning =
     \<lparr> getTime = 1000, getDay = 1, getHours = 8, getMinutes = 10,
       setHoursTime = (\<lambda>nextDay h.
         1000 - 29400000 + (if nextDay then 86400000 else 0) + \<lfloor>h\<rfloor> * 3600000) \<rparr>"

text \<open>
  The current half-hour interval at 14 c/kWh and the eleven forecast intervals that
  follow it, all ending before the cutoff.
\<close>

definition exampleBatch :: "price list" where
  "exampleBatch =
     \<lparr> perKwh = 14, endTimestamp = 1201000, type = CurrentInterval \<rparr> #
     map (\<lambda>(p, i). \<lparr> perKwh = p, endTimestamp = 1201000 + i * 1800000, type = Forecast \<rparr>)
       [(10, 1), (12, 2), (16, 3), (18, 4), (20, 5), (22, 6), (24, 7), (26, 8), (28, 9),
        (30, 10), (32, 11)]"

text \<open>
  A pass of the loop on that batch in which every collaborator answers and the plug
  draws 1500 W, and the same pass with a plug that draws nothing.
\<close>

definition pluggedCycle :: cycle where
  "pluggedCycle =
     \<lparr> getUpcomingRates = Inr exampleBatch, evaluated = mondayMorning,
       setMerossPlug = Inr (), sampled = mondayMorning,
       getMerossPlug = Inr \<lparr> power = 1500 \<rparr>, resumed = mondayMorning,
       recorded = mondayMorning \<rparr>"

definition unpluggedCycle :: cycle where
  "unpluggedCycle = pluggedCycle\<lparr> getMerossPlug := Inr \<lparr> power = 0 \<rparr> \<rparr>"

text \<open>An instance whose snapshot already holds one charging event.\<close>

definition charged :: ChargeMonitor where
  "charged =
     newChargeMonitor
       \<lparr> lastUpdate := noValues\<lparr> chargingTimes := Value [\<lparr> time = 500, price = 12 \<rparr>] \<rparr> \<rparr>"

text \<open>An instance after an explicit override of \<open>maxPrice\<close> and \<open>stateOfCharge\<close>.\<close>

definition overridden :: ChargeMonitor where
  "overridden =
     updateOverrideSettings
       \<lparr> cutoffHourP = None, maxPriceP = Some 20, stateOfChargeP = Some 85,
         preferredPriceP = None \<rparr>
       True mondayMorning newChargeMonitor"

text \<open>A batch with a current interval in which every interval ends after the cutoff.\<close>

definition lateBatch :: "price list" where
  "lateBatch =
     [\<lparr> perKwh = 14, endTimestamp = 24602000, type = CurrentInterval \<rparr>,
      \<lparr> perKwh = 10, endTimestamp = 26402000, type = Forecast \<rparr>]"

text \<open>Settings with the battery at 99 percent: one more interval is required.\<close>

definition almostFull :: ChargeMonitorSettings where
  "almostFull = \<lparr> cutoffHour = 15, maxPrice = 35, stateOfCharge = 99, preferredPrice = 18 \<rparr>"

text \<open>Instances after an explicit override of \<open>stateOfCharge\<close> alone, to 150 and to -10.\<close>

definition overcharged :: ChargeMonitor where
  "overcharged =
     updateOverrideSettings
       \<lparr> cutoffHourP = None, maxPriceP = None, stateOfChargeP = Some 150,
         preferredPriceP = None \<rparr>
       True mondayMorning newChargeMonitor"

definition undercharged :: ChargeMonitor where
  "undercharged =
     updateOverrideSettings
       \<lparr> cutoffHourP = None, maxPriceP = None, stateOfChargeP = Some (- 10),
         preferredPriceP = None \<rparr>
       True mondayMorning newChargeMonitor"

section \<open>Properties\<close>

subsection \<open>Frame lemmas\<close>

lemma emit_fields [simp]:
  "settings (emit es this) = settings this"
  "lastUpdate (emit es this) = lastUpdate this"
  "overrideSettings (emit es this) = overrideSettings this"
  "effects (emit es this) = effects this @ es"
  by (simp_all add: emit_def)

lemma setLastUpdate_fields [simp]:
  "settings (setLastUpdate values this) = settings this"
  "overrideSettings (setLastUpdate values this) = overrideSettings this"
  "effects (setLastUpdate values this) = effects this"
  by (simp_all add: setLastUpdate_def Let_def)

lemma updateOverrideSettings_fields [simp]:
  "settings (updateOverrideSettings partial b now this) = settings this"
  "lastUpdate (updateOverrideSettings partial b now this) = lastUpdate this"
  by (simp_all add: updateOverrideSettings_def Let_def)

lemma shouldCharge_fields:
  "settings (snd (shouldCharge rates now this)) = settings this"
  "overrideSettings (snd (shouldCharge rates now this)) = overrideSettings this"
  by (simp_all add: shouldCharge_def Let_def split: sum.splits option.splits)

lemma recordPower_fields:
  "settings (snd (recordPower now plug later this)) = settings this"
  "lastUpdate (snd (recordPower now plug later this)) = lastUpdate this"
  by (simp_all add: recordPower_def Let_def split: sum.splits)

lemma waitForNext_fields [simp]:
  "settings (waitForNext now this) = settings this"
  "lastUpdate (waitForNext now this) = lastUpdate this"
  "overrideSettings (waitForNext now this) = overrideSettings this"
  by (simp_all add: waitForNext_def Let_def)

lemma charging_settings: "settings (snd (charging env this)) = settings this"
proof -
  obtain r this2 where rp: "recordPower (sampled env) (getMerossPlug env) (resumed env)
      (emit [Sleep 20000] (emit [LoggerInfo TurnOnCharging, SetMerossPlug True] this)) = (r, this2)"
    by (cases "recordPower (sampled env) (getMerossPlug env) (resumed env)
      (emit [Sleep 20000] (emit [LoggerInfo TurnOnCharging, SetMerossPlug True] this))")
  have "settings this2 = settings this"
    using recordPower_fields(1) [of "sampled env" "getMerossPlug env" "resumed env"
      "emit [Sleep 20000] (emit [LoggerInfo TurnOnCharging, SetMerossPlug True] this)"]
    by (simp add: rp)
  then show ?thesis
    by (simp add: charging_def Let_def rp split: sum.splits)
qed

lemma idle_settings: "settings (snd (idle env this)) = settings this"
  by (simp add: idle_def Let_def split: sum.splits)

lemma attempt_settings: "settings (snd (attempt env this)) = settings this"
proof -
  obtain r this1 where sc: "shouldCharge (getUpcomingRates env) (evaluated env) this = (r, this1)"
    by (cases "shouldCharge (getUpcomingRates env) (evaluated env) this")
  have "settings this1 = settings this"
    using shouldCharge_fields(1) [of "getUpcomingRates env" "evaluated env" this] by (simp add: sc)
  then show ?thesis
    by (simp add: attempt_def sc charging_settings idle_settings split: sum.splits bool.splits)
qed

lemma pass_settings: "settings (pass env this) = settings this"
proof -
  obtain r this1 where at: "attempt env this = (r, this1)"
    by (cases "attempt env this")
  have "settings this1 = settings this"
    using attempt_settings [of env this] by (simp add: at)
  then show ?thesis
    by (simp add: pass_def at split: sum.splits)
qed

text \<open>No pass of the loop assigns the baseline settings.\<close>

lemma monitor_settings: "settings (monitor envs this) = settings this"
  by (induction envs arbitrary: this) (simp_all add: pass_settings)

subsection \<open>The cheapest window is an ascending prefix\<close>

lemma sorted_last_Max:
  fixes f :: "'a \<Rightarrow> 'b::linorder"
  assumes "sorted (map f xs)" and "xs \<noteq> []"
  shows "f (last xs) = Max (f ` set xs)"
proof -
  have "\<forall>y \<in> set xs. f y \<le> f (last xs)"
    using assms
  proof (induction xs)
    case Nil
    then show ?case by simp
  next
    case (Cons a as)
    then show ?case by (cases "as = []") auto
  qed
  moreover have "f (last xs) \<in> f ` set xs"
    using assms(2) by simp
  ultimately show ?thesis
    by (intro Max_eqI [symmetric]) auto
qed

lemma slice_from_0:
  "slice xs 0 n = take (nat (if n < 0 then int (length xs) + n else n)) xs"
  by (auto simp: slice_def Let_def min_def max_def)

lemma sorted_validPrices: "sorted (map perKwh (validPrices prices c))"
  by (simp add: validPrices_def)

lemma sorted_cheapest: "sorted (map perKwh (cheapest prices c s))"
  unfolding cheapest_def slice_from_0
  by (simp add: take_map [symmetric] sorted_validPrices)

lemma cheapest_take:
  "cheapest prices c s =
     take (if 0 \<le> requiredTime s then nat (requiredTime s)
           else length (filter (\<lambda>p. endTimestamp p \<le> c) prices) - nat (- requiredTime s))
       (sort_key perKwh (filter (\<lambda>p. endTimestamp p \<le> c) prices))"
proof -
  have "nat (int n + r) = n - nat (- r)" if "r < 0" for n :: nat and r :: int
    using that by linarith
  then show ?thesis
    by (simp add: cheapest_def slice_from_0 validPrices_def)
qed

lemma take_sorted_le_drop:
  fixes f :: "'a \<Rightarrow> 'b::linorder"
  assumes "sorted (map f xs)"
  shows "\<forall>q \<in> set (take k xs). \<forall>p \<in> set (drop k xs). f q \<le> f p"
proof -
  have "sorted (map f (take k xs @ drop k xs))"
    using assms by simp
  then show ?thesis
    unfolding map_append sorted_append by auto
qed

lemma mset_minus_take: "mset xs - mset (take k xs) = mset (drop k xs)"
proof -
  have "mset xs = mset (take k xs) + mset (drop k xs)"
    by (metis append_take_drop_id mset_append)
  then show ?thesis by simp
qed

subsection \<open>Spreading and the locals of \<open>shouldCharge\<close>\<close>

lemma spread_Value [simp]: "spread a (Value v) = Value v"
  by (simp add: spread_def)

lemma spread_Absent [simp]: "spread a Absent = a"
  by (simp add: spread_def)

lemma spread_Undefined [simp]: "spread a Undefined = Undefined"
  by (simp add: spread_def)

lemma computePriceMax_nonempty:
  "lowest \<noteq> [] \<Longrightarrow>
   computePriceMax lowest s = Inr (min (perKwh (last lowest) + 1) (maxPrice s))"
  by (simp add: computePriceMax_def lastPerKwh_def)

lemma computePriceMax_empty:
  "computePriceMax [] s = Inl (TypeError ''Cannot read properties of undefined'')"
  by (simp add: computePriceMax_def lastPerKwh_def)

text \<open>What \<open>shouldCharge\<close> returns and records once both lookups have succeeded.\<close>

lemma shouldCharge_returns:
  assumes "computePriceMax (cheapest prices (getUpcomingCutoff this now) (getSettings this now))
             (getSettings this now) = Inr pm"
    and "find (\<lambda>p. type p = CurrentInterval) prices = Some cur"
  shows "fst (shouldCharge (Inr prices) now this) = Inr (perKwh cur < pm)"
    and "priceMax (lastUpdate (snd (shouldCharge (Inr prices) now this))) = Value pm"
    and "currentPrice (lastUpdate (snd (shouldCharge (Inr prices) now this))) = Value cur"
    and "charge (lastUpdate (snd (shouldCharge (Inr prices) now this))) = Value (perKwh cur < pm)"
    and "chargingTimes (lastUpdate (snd (shouldCharge (Inr prices) now this))) =
           chargingTimes (lastUpdate this)"
  using assms
  by (simp_all add: shouldCharge_def Let_def setLastUpdate_def spreadLastUpdate_def)

lemma recordPower_true:
  assumes "power plug > 1000"
  shows "fst (recordPower now (Inr plug) later this) = Inr True"
  using assms by (simp add: recordPower_def Let_def)

subsection \<open>What the methods do on each path\<close>

text \<open>A failure of the price source reaches the caller unchanged.\<close>

lemma shouldCharge_propagates: "shouldCharge (Inl e) now this = (Inl e, this)"
  by (simp add: shouldCharge_def)

text \<open>A batch without a current interval always ends in an exception.\<close>

lemma shouldCharge_no_current:
  assumes "find (\<lambda>p. type p = CurrentInterval) prices = None"
  shows "\<exists>e. fst (shouldCharge (Inr prices) now this) = Inl e"
  using assms by (simp add: shouldCharge_def Let_def split: sum.splits)

text \<open>
  A window that is not empty but shorter than required: the note is logged and the
  method returns a decision.
\<close>

lemma shouldCharge_partial_window:
  assumes "cheapest prices (getUpcomingCutoff this now) (getSettings this now) \<noteq> []"
    and "int (length (cheapest prices (getUpcomingCutoff this now) (getSettings this now)))
           < requiredTime (getSettings this now)"
    and "find (\<lambda>p. type p = CurrentInterval) prices = Some cur"
  shows "effects (snd (shouldCharge (Inr prices) now this)) =
           effects this @ [LoggerInfo NotEnoughPrices]"
    and "\<exists>d. fst (shouldCharge (Inr prices) now this) = Inr d"
  using assms
  by (simp_all add: shouldCharge_def Let_def computePriceMax_nonempty)

text \<open>The \<open>catch\<close> block: the error is logged, the loop sleeps 60 seconds and goes on.\<close>

lemma pass_catches:
  assumes "attempt env this = (Inl e, this1)"
  shows "effects (pass env this) =
           effects this1 @ [LoggerError e, LoggerInfo ErrorOccurredRetrying, Sleep 60000]"
  using assms by (simp add: pass_def)

lemma monitor_append: "monitor (envs @ [env]) this = pass env (monitor envs this)"
  by (induction envs arbitrary: this) simp_all

text \<open>
  \<open>setLastUpdate\<close> keeps the recorded events and appends the new ones, unless the
  partial snapshot carries the key \<open>chargingTimes\<close> with the value \<open>undefined\<close>.
\<close>

lemma setLastUpdate_history:
  assumes "chargingTimes values \<noteq> Undefined"
  shows "history (lastUpdate (setLastUpdate values this)) =
           history (lastUpdate this) @ history values"
  using assms
  by (simp add: setLastUpdate_def history_def spreadLastUpdate_def split: property.splits)

text \<open>\<open>recordPower\<close> never changes the expiry of the overlay.\<close>

lemma recordPower_expireAt:
  "expireAt (overrideSettings (snd (recordPower now plug later this))) =
     expireAt (overrideSettings this)"
  by (simp add: recordPower_def Let_def updateOverrideSettings_def split: sum.splits)

subsection \<open>Settings store\<close>

text \<open>
  C5. When no valid override exists, \<open>getSettings\<close> returns the baseline settings
  with only \<open>cutoffHour\<close> replaced: by 9 from Friday (day 5) 15:00 until Saturday (day 6)
  before 09:00, by 10 from Saturday 09:00 until Sunday (day 0) before 10:00, and by the
  baseline cutoff hour at every other day and hour. The method writes the literal 15 in
  the last case; the field \<open>settings\<close> is initialised with \<open>cutoffHour = 15\<close> and no
  method assigns it (see \<open>monitor_settings\<close> and \<open>updateOverrideSettings_fields\<close>), so
  the literal is the baseline cutoff hour in every state the instance reaches.
\<close>

theorem getSettings_calendar:
  assumes "\<not> overrideSettingsValid this now"
    and "settings this = settings newChargeMonitor"
  shows "getSettings this now =
           (settings this)\<lparr> cutoffHour :=
              (if (getDay now = 5 \<and> 15 \<le> getHours now) \<or> (getDay now = 6 \<and> getHours now < 9)
               then 9
               else if (getDay now = 6 \<and> 9 \<le> getHours now) \<or> (getDay now = 0 \<and> getHours now < 10)
               then 10
               else cutoffHour (settings this)) \<rparr>"
  using assms by (simp add: getSettings_def newChargeMonitor_def)

theorem getSettings_calendar_witness:
  "\<not> overrideSettingsValid newChargeMonitor mondayMorning \<and>
   getSettings newChargeMonitor mondayMorning =
     \<lparr> cutoffHour = 15, maxPrice = 35, stateOfCharge = 85, preferredPrice = 18 \<rparr>"
proof -
  have h: "\<not> overrideSettingsValid newChargeMonitor mondayMorning"
    by (simp add: overrideSettingsValid_def newChargeMonitor_def mondayMorning_def)
  show ?thesis
    using h getSettings_calendar [OF h refl]
    by (simp add: newChargeMonitor_def mondayMorning_def)
qed

subsection \<open>Decision engine\<close>

text \<open>
  C1. For every batch that contains a current interval and yields a non-empty cheapest
  window, \<open>shouldCharge\<close> returns normally, records the computed \<open>priceMax\<close>, and its
  decision is true exactly when the current interval's \<open>perKwh\<close> is strictly below
  that \<open>priceMax\<close>; when the two are equal the decision is false.
\<close>

theorem shouldCharge_decision:
  assumes "find (\<lambda>p. type p = CurrentInterval) prices = Some cur"
    and "cheapest prices (getUpcomingCutoff this now) (getSettings this now) \<noteq> []"
  shows "\<exists>pm. computePriceMax (cheapest prices (getUpcomingCutoff this now) (getSettings this now))
                 (getSettings this now) = Inr pm \<and>
              priceMax (lastUpdate (snd (shouldCharge (Inr prices) now this))) = Value pm \<and>
              fst (shouldCharge (Inr prices) now this) = Inr (perKwh cur < pm) \<and>
              (perKwh cur = pm \<longrightarrow> fst (shouldCharge (Inr prices) now this) = Inr False)"
proof -
  let ?w = "cheapest prices (getUpcomingCutoff this now) (getSettings this now)"
  let ?pm = "min (perKwh (last ?w) + 1) (maxPrice (getSettings this now))"
  have pm: "computePriceMax ?w (getSettings this now) = Inr ?pm"
    using assms(2) by (rule computePriceMax_nonempty)
  have "fst (shouldCharge (Inr prices) now this) = Inr (perKwh cur < ?pm)"
    using pm assms(1) by (rule shouldCharge_returns(1))
  moreover have "priceMax (lastUpdate (snd (shouldCharge (Inr prices) now this))) = Value ?pm"
    using pm assms(1) by (rule shouldCharge_returns(2))
  ultimately show ?thesis
    using pm by auto
qed

theorem shouldCharge_decision_witness:
  "find (\<lambda>p. type p = CurrentInterval) exampleBatch =
     Some \<lparr> perKwh = 14, endTimestamp = 1201000, type = CurrentInterval \<rparr> \<and>
   cheapest exampleBatch (getUpcomingCutoff newChargeMonitor mondayMorning)
     (getSettings newChargeMonitor mondayMorning) \<noteq> [] \<and>
   priceMax (lastUpdate (snd (shouldCharge (Inr exampleBatch) mondayMorning newChargeMonitor))) =
     Value 33 \<and>
   fst (shouldCharge (Inr exampleBatch) mondayMorning newChargeMonitor) = Inr True"
proof -
  have h1: "find (\<lambda>p. type p = CurrentInterval) exampleBatch =
      Some \<lparr> perKwh = 14, endTimestamp = 1201000, type = CurrentInterval \<rparr>"
    by (simp add: exampleBatch_def)
  have h2: "cheapest exampleBatch (getUpcomingCutoff newChargeMonitor mondayMorning)
      (getSettings newChargeMonitor mondayMorning) \<noteq> []"
    by code_simp
  have v: "priceMax (lastUpdate (snd (shouldCharge (Inr exampleBatch) mondayMorning newChargeMonitor))) =
     Value 33"
    by code_simp
  show ?thesis
    using h1 h2 v shouldCharge_decision [OF h1 h2] by auto
qed

text \<open>
  C2. Whenever the cheapest window \<open>w\<close> of an invocation is not empty, the
  \<open>priceMax\<close> that \<open>shouldCharge\<close> computes (from the last element of the window) is
  the minimum of the largest \<open>perKwh\<close> in the window plus 1 and the effective
  \<open>maxPrice\<close>; it is the value recorded when the batch has a current interval, and it
  never exceeds the effective \<open>maxPrice\<close>.
\<close>

theorem priceMax_is_min:
  assumes "s = getSettings this now"
    and "w = cheapest prices (getUpcomingCutoff this now) s"
    and "w \<noteq> []"
  shows "computePriceMax w s = Inr (min (Max (perKwh ` set w) + 1) (maxPrice s)) \<and>
         min (Max (perKwh ` set w) + 1) (maxPrice s) \<le> maxPrice s \<and>
         (find (\<lambda>p. type p = CurrentInterval) prices \<noteq> None \<longrightarrow>
            priceMax (lastUpdate (snd (shouldCharge (Inr prices) now this))) =
              Value (min (Max (perKwh ` set w) + 1) (maxPrice s)))"
proof -
  have "sorted (map perKwh w)"
    unfolding assms(2) by (rule sorted_cheapest)
  then have "perKwh (last w) = Max (perKwh ` set w)"
    using assms(3) by (rule sorted_last_Max)
  then have pm: "computePriceMax w s = Inr (min (Max (perKwh ` set w) + 1) (maxPrice s))"
    using assms(3) by (simp add: computePriceMax_nonempty)
  have "priceMax (lastUpdate (snd (shouldCharge (Inr prices) now this))) =
          Value (min (Max (perKwh ` set w) + 1) (maxPrice s))"
    if "find (\<lambda>p. type p = CurrentInterval) prices = Some cur" for cur
    using pm that unfolding assms(2) assms(1) by (rule shouldCharge_returns(2))
  then show ?thesis
    using pm by auto
qed

theorem priceMax_is_min_witness:
  "cheapest exampleBatch (getUpcomingCutoff newChargeMonitor mondayMorning)
     (getSettings newChargeMonitor mondayMorning) \<noteq> [] \<and>
   computePriceMax
     (cheapest exampleBatch (getUpcomingCutoff newChargeMonitor mondayMorning)
        (getSettings newChargeMonitor mondayMorning))
     (getSettings newChargeMonitor mondayMorning) = Inr 33 \<and>
   (33 :: rat) \<le> maxPrice (getSettings newChargeMonitor mondayMorning)"
proof -
  let ?s = "getSettings newChargeMonitor mondayMorning"
  let ?w = "cheapest exampleBatch (getUpcomingCutoff newChargeMonitor mondayMorning) ?s"
  have h: "?w \<noteq> []"
    by code_simp
  have v: "computePriceMax ?w ?s = Inr 33"
    by code_simp
  show ?thesis
    using h v priceMax_is_min [OF refl refl h] by simp
qed

subsection \<open>Control loop\<close>

text \<open>
  C10. In the charging branch, whenever the plug is switched on and sampled
  successfully and the sampled power exceeds 1000 W, \<open>recordPower\<close> returns true and
  the loop records \<open>isPluggedIn = true\<close> and appends one charging event to the events
  recorded so far: its time is the clock value read then, its price the \<open>perKwh\<close> of
  the last recorded current price, or 0 when the snapshot has none. Nothing is assumed
  about the override, so this holds whether or not the increment is stored.
\<close>

theorem charging_records_event:
  assumes "setMerossPlug env = Inr ()"
    and "getMerossPlug env = Inr plug"
    and "power plug > 1000"
  shows "fst (recordPower (sampled env) (getMerossPlug env) (resumed env) this) = Inr True \<and>
         fst (charging env this) = Inr () \<and>
         isPluggedIn (lastUpdate (snd (charging env this))) = Value True \<and>
         chargingTimes (lastUpdate (snd (charging env this))) =
           Value (history (lastUpdate this) @
                    [\<lparr> time = getTime (recorded env),
                       price = (case currentPrice (lastUpdate this) of
                                  Value p \<Rightarrow> perKwh p | _ \<Rightarrow> 0) \<rparr>])"
proof -
  let ?this1 = "emit [Sleep 20000] (emit [LoggerInfo TurnOnCharging, SetMerossPlug True] this)"
  obtain r this2 where rp:
    "recordPower (sampled env) (getMerossPlug env) (resumed env) ?this1 = (r, this2)"
    by (cases "recordPower (sampled env) (getMerossPlug env) (resumed env) ?this1")
  have r: "r = Inr True"
    using recordPower_true [OF assms(3), of "sampled env" "resumed env" ?this1]
    by (simp add: rp [unfolded assms(2)])
  have lu: "lastUpdate this2 = lastUpdate this"
    using recordPower_fields(2) [of "sampled env" "getMerossPlug env" "resumed env" ?this1]
    by (simp add: rp)
  have price: "lastKnownPrice this2 =
      (case currentPrice (lastUpdate this) of Value p \<Rightarrow> perKwh p | _ \<Rightarrow> 0)"
    by (simp add: lastKnownPrice_def getLastUpdate_def lu split: property.splits)
  have "fst (recordPower (sampled env) (getMerossPlug env) (resumed env) this) = Inr True"
    using recordPower_true [OF assms(3)] by (simp add: assms(2))
  moreover have "fst (charging env this) = Inr ()"
    by (simp add: charging_def Let_def assms(1) rp r)
  moreover have "isPluggedIn (lastUpdate (snd (charging env this))) = Value True"
    by (simp add: charging_def Let_def assms(1) rp r setLastUpdate_def spreadLastUpdate_def
        noValues_def split: property.splits)
  moreover have "chargingTimes (lastUpdate (snd (charging env this))) =
      Value (history (lastUpdate this) @
        [\<lparr> time = getTime (recorded env),
           price = (case currentPrice (lastUpdate this) of Value p \<Rightarrow> perKwh p | _ \<Rightarrow> 0) \<rparr>])"
    by (simp add: charging_def Let_def assms(1) rp r setLastUpdate_def spreadLastUpdate_def
        noValues_def history_def lu price split: property.splits)
  ultimately show ?thesis
    by simp
qed

theorem charging_records_event_witness:
  "setMerossPlug pluggedCycle = Inr () \<and>
   getMerossPlug pluggedCycle = Inr \<lparr> power = 1500 \<rparr> \<and>
   power \<lparr> power = 1500 \<rparr> > 1000 \<and>
   \<not> overrideSettingsValid newChargeMonitor (resumed pluggedCycle) \<and>
   isPluggedIn (lastUpdate (snd (charging pluggedCycle newChargeMonitor))) = Value True \<and>
   chargingTimes (lastUpdate (snd (charging pluggedCycle newChargeMonitor))) =
     Value [\<lparr> time = 1000, price = 0 \<rparr>]"
proof -
  have h1: "setMerossPlug pluggedCycle = Inr ()"
    by (simp add: pluggedCycle_def)
  have h2: "getMerossPlug pluggedCycle = Inr \<lparr> power = 1500 \<rparr>"
    by (simp add: pluggedCycle_def)
  have h3: "power \<lparr> power = 1500 \<rparr> > 1000"
    by simp
  have h4: "\<not> overrideSettingsValid newChargeMonitor (resumed pluggedCycle)"
    by (simp add: overrideSettingsValid_def newChargeMonitor_def pluggedCycle_def
        mondayMorning_def)
  show ?thesis
    using h1 h2 h3 h4 charging_records_event [OF h1 h2 h3, of newChargeMonitor]
    by (simp add: history_def newChargeMonitor_def noValues_def pluggedCycle_def mondayMorning_def)
qed

text \<open>
  C4. The history of charging events is not append-only. In the charging branch the
  loop passes \<open>chargingTimes: undefined\<close> to \<open>setLastUpdate\<close> when the plug draws no
  more than 1000 W; the key is present, so the spread replaces the recorded list by
  \<open>undefined\<close>. Here a snapshot holding one event is merged, by one pass of the loop
  and by the same call made directly, with such a partial snapshot: the event is gone.
\<close>

theorem history_reset_by_undefined:
  "chargingTimes (lastUpdate charged) = Value [\<lparr> time = 500, price = 12 \<rparr>] \<and>
   chargingTimes (lastUpdate (pass unpluggedCycle charged)) = Undefined \<and>
   history (lastUpdate (pass unpluggedCycle charged)) = [] \<and>
   chargingTimes
     (lastUpdate
        (setLastUpdate (noValues\<lparr> isPluggedIn := Value False, chargingTimes := Undefined \<rparr>)
           charged)) = Undefined"
  by code_simp

subsection \<open>Override overlay\<close>

text \<open>
  C3. The implicit increment does not keep the other fields of the overlay. With a
  valid override of \<open>maxPrice\<close> and \<open>stateOfCharge\<close> and a sample of 1500 W,
  \<open>recordPower\<close> leaves an overlay that holds only the new \<open>stateOfCharge\<close> and the
  old \<open>expireAt\<close>: the overridden \<open>maxPrice\<close> is lost and the effective \<open>maxPrice\<close>
  falls back from 20 to the baseline 35.
\<close>

theorem increment_drops_overlay_fields:
  "overrideSettingsValid overridden mondayMorning \<and>
   overrideSettings overridden =
     \<lparr> cutoffHourP = None, maxPriceP = Some 20, stateOfChargeP = Some 85,
       preferredPriceP = None, expireAt = 86401000 \<rparr> \<and>
   overrideSettings
     (snd (recordPower mondayMorning (Inr \<lparr> power = 1500 \<rparr>) mondayMorning overridden)) =
     \<lparr> cutoffHourP = None, maxPriceP = None, stateOfChargeP = Some (345 / 4),
       preferredPriceP = None, expireAt = 86401000 \<rparr> \<and>
   maxPrice (getSettings overridden mondayMorning) = 20 \<and>
   maxPrice (getSettings
     (snd (recordPower mondayMorning (Inr \<lparr> power = 1500 \<rparr>) mondayMorning overridden))
     mondayMorning) = 35"
  by code_simp

subsection \<open>Errors of the decision engine\<close>

text \<open>
  C8. \<open>shouldCharge\<close> does not throw only when the batch lacks a current interval:
  on a batch that consists of a current interval ending after the cutoff, the cheapest
  window is empty and reading \<open>perKwh\<close> of its last element throws a TypeError.
\<close>

theorem shouldCharge_throws_with_current_interval:
  "find (\<lambda>p. type p = CurrentInterval)
     [\<lparr> perKwh = 14, endTimestamp = 24602000, type = CurrentInterval \<rparr>] =
     Some \<lparr> perKwh = 14, endTimestamp = 24602000, type = CurrentInterval \<rparr> \<and>
   fst (shouldCharge (Inr [\<lparr> perKwh = 14, endTimestamp = 24602000, type = CurrentInterval \<rparr>])
          mondayMorning newChargeMonitor) =
     Inl (TypeError ''Cannot read properties of undefined'')"
  by code_simp

text \<open>
  C9. With no interval ending at or before the cutoff, and 13 intervals required,
  \<open>shouldCharge\<close> neither logs the note nor reaches a decision: it throws a TypeError
  and leaves the instance, its effects included, as it was.
\<close>

theorem shouldCharge_throws_on_empty_window:
  "validPrices lateBatch (getUpcomingCutoff newChargeMonitor mondayMorning) = [] \<and>
   requiredTime (getSettings newChargeMonitor mondayMorning) = 13 \<and>
   shouldCharge (Inr lateBatch) mondayMorning newChargeMonitor =
     (Inl (TypeError ''Cannot read properties of undefined''), newChargeMonitor)"
  by code_simp

subsection \<open>The cheapest window\<close>

text \<open>
  C6 (amended). The candidates for the cheapest window are all intervals of the batch
  whose \<open>endTimestamp\<close> is at most the cutoff, whatever their type: the current
  interval is a candidate like any forecast interval. The window is the candidates
  sorted ascending by \<open>perKwh\<close>, cut to the first \<open>requiredTime\<close> of them (for a
  negative \<open>requiredTime\<close>, to all but the last \<open>- requiredTime\<close>, as \<open>slice\<close> does):
  it is drawn from the candidates, ascending, of that length, and no candidate left out
  is cheaper than a member.
\<close>

theorem cheapest_window:
  fixes prices :: "price list" and c :: int and s :: ChargeMonitorSettings
  assumes "candidates = filter (\<lambda>p. endTimestamp p \<le> c) prices"
    and "k = (if 0 \<le> requiredTime s then nat (requiredTime s)
              else length candidates - nat (- requiredTime s))"
  shows "cheapest prices c s = take k (sort_key perKwh candidates) \<and>
         set candidates = {p \<in> set prices. endTimestamp p \<le> c} \<and>
         mset (cheapest prices c s) \<subseteq># mset candidates \<and>
         length (cheapest prices c s) = min k (length candidates) \<and>
         sorted (map perKwh (cheapest prices c s)) \<and>
         (\<forall>q \<in> set (cheapest prices c s).
            \<forall>p \<in># mset candidates - mset (cheapest prices c s). perKwh q \<le> perKwh p)"
proof -
  let ?V = "sort_key perKwh candidates"
  have eq: "cheapest prices c s = take k ?V"
    unfolding assms by (rule cheapest_take)
  have cands: "set candidates = {p \<in> set prices. endTimestamp p \<le> c}"
    by (simp add: assms(1))
  have sub: "mset (cheapest prices c s) \<subseteq># mset candidates"
    unfolding eq
    by (metis mset_sort append_take_drop_id mset_append mset_subset_eq_add_left)
  have len: "length (cheapest prices c s) = min k (length candidates)"
    unfolding eq by simp
  have rest: "mset candidates - mset (cheapest prices c s) = mset (drop k ?V)"
    unfolding eq using mset_minus_take [of ?V k] by simp
  have "sorted (map perKwh ?V)"
    by simp
  then have "\<forall>q \<in> set (take k ?V). \<forall>p \<in> set (drop k ?V). perKwh q \<le> perKwh p"
    by (rule take_sorted_le_drop)
  then have cheap: "\<forall>q \<in> set (cheapest prices c s).
      \<forall>p \<in># mset candidates - mset (cheapest prices c s). perKwh q \<le> perKwh p"
    unfolding rest by (simp add: eq)
  from eq cands sub len sorted_cheapest [of prices c s] cheap show ?thesis
    by blast
qed

theorem cheapest_window_witness:
  "requiredTime almostFull = 1 \<and>
   length (filter (\<lambda>p. endTimestamp p \<le> 24601000) exampleBatch) = 12 \<and>
   length (cheapest exampleBatch 24601000 almostFull) = 1 \<and>
   cheapest exampleBatch 24601000 almostFull =
     take 1 (sort_key perKwh (filter (\<lambda>p. endTimestamp p \<le> 24601000) exampleBatch))"
proof -
  have r: "requiredTime almostFull = 1"
    by code_simp
  have n: "length (filter (\<lambda>p. endTimestamp p \<le> 24601000) exampleBatch) = 12"
    by code_simp
  note w = cheapest_window [OF refl refl, where c = 24601000 and prices = exampleBatch
      and s = almostFull]
  have "length (cheapest exampleBatch 24601000 almostFull) = 1"
    using w r n by simp
  moreover have "cheapest exampleBatch 24601000 almostFull =
      take 1 (sort_key perKwh (filter (\<lambda>p. endTimestamp p \<le> 24601000) exampleBatch))"
    using w r by simp
  ultimately show ?thesis
    using r n by simp
qed

text \<open>
  The claim as written excludes intervals of the current-interval type from the window.
  In the example batch the current interval ends before the cutoff and is the third
  cheapest: it is a member of the window.
\<close>

theorem current_interval_in_window:
  "type \<lparr> perKwh = 14, endTimestamp = 1201000, type = CurrentInterval \<rparr> = CurrentInterval \<and>
   \<lparr> perKwh = 14, endTimestamp = 1201000, type = CurrentInterval \<rparr>
     \<in> set (cheapest exampleBatch (getUpcomingCutoff newChargeMonitor mondayMorning)
              (getSettings newChargeMonitor mondayMorning))"
  by code_simp

subsection \<open>Range of the state of charge\<close>

text \<open>
  The implicit increment, when it is stored (the sampled power exceeds 1000 W and the
  override is valid), writes the minimum of the effective value read before the sample
  plus 1.25 and 100: this write path clamps at 100.
\<close>

lemma recordPower_clamps_above:
  assumes "power plug > 1000"
    and "overrideSettingsValid this later"
  shows "stateOfCharge (getSettings (snd (recordPower now (Inr plug) later this)) later) =
           min (stateOfCharge (getSettings this now) + 5 / 4) 100"
    and "stateOfCharge (getSettings (snd (recordPower now (Inr plug) later this)) later) \<le> 100"
proof -
  have valid: "overrideSettingsValid
      (emit [LoggerInfo (ChargingIsAt (power plug)
          (min (stateOfCharge (getSettings this now) + 5 / 4) 100))] this) later"
    using assms(2) by (simp add: overrideSettingsValid_def)
  show written: "stateOfCharge (getSettings (snd (recordPower now (Inr plug) later this)) later) =
      min (stateOfCharge (getSettings this now) + 5 / 4) 100"
    using assms(1) assms(2) valid
    by (simp add: recordPower_def Let_def)
       (simp add: updateOverrideSettings_def Let_def getSettings_def overrideSettingsValid_def
          spreadSettings_def orElse_def)
  show "stateOfCharge (getSettings (snd (recordPower now (Inr plug) later this)) later) \<le> 100"
    unfolding written by simp
qed

text \<open>
  C7. The effective \<open>stateOfCharge\<close> does not stay in [0, 100] after an explicit
  override request: \<open>updateOverrideSettings\<close> stores the requested value as given. A
  request for 150 is read back as 150, and with it the number of required intervals is
  negative, the cheapest window of an ordinary batch is empty and \<open>shouldCharge\<close>
  throws. A request for -10 is read back as -10, and the implicit increment that
  follows a sample of 1500 W writes -8.75, which is still below 0.
\<close>

theorem explicit_override_not_clamped:
  "stateOfCharge (getSettings overcharged mondayMorning) = 150 \<and>
   \<not> stateOfCharge (getSettings overcharged mondayMorning) \<le> 100 \<and>
   requiredTime (getSettings overcharged mondayMorning) = - 39 \<and>
   fst (shouldCharge (Inr exampleBatch) mondayMorning overcharged) =
     Inl (TypeError ''Cannot read properties of undefined'') \<and>
   stateOfCharge (getSettings undercharged mondayMorning) = - 10 \<and>
   stateOfCharge
     (getSettings
        (snd (recordPower mondayMorning (Inr \<lparr> power = 1500 \<rparr>) mondayMorning undercharged))
        mondayMorning) = - (35 / 4) \<and>
   \<not> 0 \<le> stateOfCharge
            (getSettings
               (snd (recordPower mondayMorning (Inr \<lparr> power = 1500 \<rparr>) mondayMorning
                       undercharged))
               mondayMorning)"
  by code_simp

end
